theory Spec2Isabelle
  imports Complex_Main "HOL-Library.Word" "HOL-Library.Multiset"
begin

unbundle bit_operations_syntax

section \<open>Mapsforge style rules (src/map/mapsforge/style.h)\<close>

subsection \<open>Tags and filters\<close>

text \<open>
  \<open>MapData::Tag\<close> is declared in mapdata.h: an interned key id (\<open>unsigned\<close>) and the
  value bytes (\<open>QByteArray\<close>). The key id 0 and the empty byte array are the wildcards
  of a filter.
\<close>

record Tag =
  tag_key :: "32 word"
  tag_value :: string

text \<open>\<open>Style::Rule::Filter\<close>: the members \<open>_keys\<close>, \<open>_vals\<close> and \<open>_neg\<close>.\<close>

record Filter =
  f_keys :: "32 word list"
  f_vals :: "string list"
  f_neg :: bool

text \<open>
  \<open>Filter::keyMatches\<close>: the outer loop runs over \<open>_keys\<close>, the inner loop over the
  tags; the test \<open>!key || key == tags.at(j).key\<close> stands inside the inner loop.
\<close>

fun keyMatches_tags :: "32 word \<Rightarrow> Tag list \<Rightarrow> bool" where
  "keyMatches_tags k [] = False"
| "keyMatches_tags k (t # ts) =
     (if k = 0 \<or> k = tag_key t then True else keyMatches_tags k ts)"

fun keyMatches_keys :: "32 word list \<Rightarrow> Tag list \<Rightarrow> bool" where
  "keyMatches_keys [] tags = False"
| "keyMatches_keys (k # ks) tags =
     (if keyMatches_tags k tags then True else keyMatches_keys ks tags)"

definition keyMatches :: "Filter \<Rightarrow> Tag list \<Rightarrow> bool" where
  "keyMatches f tags = keyMatches_keys (f_keys f) tags"

text \<open>
  \<open>Filter::valueMatches\<close>: the same two loops over \<open>_vals\<close> and the tags, with the test
  \<open>!ba.size() || ba == tags.at(j).value\<close>.
\<close>

fun valueMatches_tags :: "string \<Rightarrow> Tag list \<Rightarrow> bool" where
  "valueMatches_tags ba [] = False"
| "valueMatches_tags ba (t # ts) =
     (if length ba = 0 \<or> ba = tag_value t then True else valueMatches_tags ba ts)"

fun valueMatches_vals :: "string list \<Rightarrow> Tag list \<Rightarrow> bool" where
  "valueMatches_vals [] tags = False"
| "valueMatches_vals (ba # bas) tags =
     (if valueMatches_tags ba tags then True else valueMatches_vals bas tags)"

definition valueMatches :: "Filter \<Rightarrow> Tag list \<Rightarrow> bool" where
  "valueMatches f tags = valueMatches_vals (f_vals f) tags"

text \<open>\<open>Filter::match\<close>.\<close>

definition Filter_match :: "Filter \<Rightarrow> Tag list \<Rightarrow> bool" where
  "Filter_match f tags =
     (if f_neg f then
        (if \<not> keyMatches f tags then True else valueMatches f tags)
      else (keyMatches f tags \<and> valueMatches f tags))"

text \<open>\<open>Filter::isTautology\<close>: \<open>QList::contains\<close> is list membership.\<close>

definition isTautology :: "Filter \<Rightarrow> bool" where
  "isTautology f = (\<not> f_neg f \<and> 0 \<in> set (f_keys f) \<and> [] \<in> set (f_vals f))"

text \<open>
  The specification's wording of a tautology, for comparison with \<open>isTautology\<close>: a
  filter that is not negated and whose key set and value set are both pure wildcards,
  that is, hold the wildcard and nothing else.
\<close>

definition spec_tautology :: "Filter \<Rightarrow> bool" where
  "spec_tautology f = (\<not> f_neg f \<and> set (f_keys f) = {0} \<and> set (f_vals f) = {[]})"

subsection \<open>Rules\<close>

text \<open>The enums \<open>Rule::Type\<close> and \<open>Rule::Closed\<close> with their integer values.\<close>

datatype Type = AnyType | NodeType | WayType | InvalidType

datatype Closed = AnyClosed | YesClosed | NoClosed | InvalidClosed

fun Type_to_int :: "Type \<Rightarrow> int" where
  "Type_to_int AnyType = 0"
| "Type_to_int NodeType = 1"
| "Type_to_int WayType = 2"
| "Type_to_int InvalidType = 3"

fun Closed_to_int :: "Closed \<Rightarrow> int" where
  "Closed_to_int AnyClosed = 0"
| "Closed_to_int YesClosed = 1"
| "Closed_to_int NoClosed = 2"
| "Closed_to_int InvalidClosed = 3"

text \<open>
  \<open>static_cast<Type>(i)\<close> for an \<open>i\<close> between 0 and 3, the only values the bitwise OR
  of two enumerators takes (lemma \<open>Type_or_range\<close> below); the last branch is reached
  for 3 only.
\<close>

definition Type_of_int :: "int \<Rightarrow> Type" where
  "Type_of_int i =
     (if i = 0 then AnyType else if i = 1 then NodeType
      else if i = 2 then WayType else InvalidType)"

definition Closed_of_int :: "int \<Rightarrow> Closed" where
  "Closed_of_int i =
     (if i = 0 then AnyClosed else if i = 1 then YesClosed
      else if i = 2 then NoClosed else InvalidClosed)"

text \<open>
  Modelled from the spec: the class \<open>Range\<close> (common/range.h is not among the sources),
  an inclusive integer range with the accessors \<open>min()\<close>, \<open>max()\<close>, \<open>setMin\<close>,
  \<open>setMax\<close> and \<open>contains\<close> ("inclusive zoom range [min,max]", "zoom containment is
  inclusive at both bounds"). The C++ \<open>int\<close> is only compared, never computed with, so
  it is an \<open>int\<close> here.
\<close>

record Range =
  range_min :: int
  range_max :: int

definition Range_contains :: "Range \<Rightarrow> int \<Rightarrow> bool" where
  "Range_contains r v = (range_min r \<le> v \<and> v \<le> range_max r)"

text \<open>\<open>Style::Rule\<close>: the members \<open>_type\<close>, \<open>_closed\<close>, \<open>_zooms\<close> and \<open>_filters\<close>.\<close>

record Rule =
  r_type :: Type
  r_closed :: Closed
  r_zooms :: Range
  r_filters :: "Filter list"

text \<open>The constructor \<open>Rule()\<close>.\<close>

definition Rule_ctor :: Rule where
  "Rule_ctor =
     \<lparr>r_type = AnyType, r_closed = AnyClosed,
      r_zooms = \<lparr>range_min = 0, range_max = 127\<rparr>, r_filters = []\<rparr>"

definition setType :: "Type \<Rightarrow> Rule \<Rightarrow> Rule" where
  "setType t r = r\<lparr>r_type := Type_of_int (Type_to_int t OR Type_to_int (r_type r))\<rparr>"

definition setMinZoom :: "int \<Rightarrow> Rule \<Rightarrow> Rule" where
  "setMinZoom zoom r =
     r\<lparr>r_zooms := (r_zooms r)\<lparr>range_min := max zoom (range_min (r_zooms r))\<rparr>\<rparr>"

definition setMaxZoom :: "int \<Rightarrow> Rule \<Rightarrow> Rule" where
  "setMaxZoom zoom r =
     r\<lparr>r_zooms := (r_zooms r)\<lparr>range_max := min zoom (range_max (r_zooms r))\<rparr>\<rparr>"

definition setClosed :: "Closed \<Rightarrow> Rule \<Rightarrow> Rule" where
  "setClosed c r =
     r\<lparr>r_closed := Closed_of_int (Closed_to_int c OR Closed_to_int (r_closed r))\<rparr>"

definition addFilter :: "Filter \<Rightarrow> Rule \<Rightarrow> Rule" where
  "addFilter f r = (if \<not> isTautology f then r\<lparr>r_filters := r_filters r @ [f]\<rparr> else r)"

text \<open>
  Modelled from the spec: \<open>Rule::match(zoom, type, closed, tags)\<close>, declared in style.h
  and defined in style.cpp, which is not among the sources. The spec: "zoom range
  containment check, then type compatibility (AnyType matches everything), then closed
  compatibility analogously, then all Filters must match". A constraint other than
  \<open>AnyType\<close> is compatible with the feature kind equal to it; the value 3 is the
  enumerator \<open>InvalidType\<close> of the header, equal to no feature kind.
\<close>

definition Type_compatible :: "Type \<Rightarrow> Type \<Rightarrow> bool" where
  "Type_compatible rt t = (rt = AnyType \<or> rt = t)"

definition Closed_compatible :: "Closed \<Rightarrow> Closed \<Rightarrow> bool" where
  "Closed_compatible rc c = (rc = AnyClosed \<or> rc = c)"

definition Rule_match :: "Rule \<Rightarrow> int \<Rightarrow> Type \<Rightarrow> Closed \<Rightarrow> Tag list \<Rightarrow> bool" where
  "Rule_match r zoom t c tags =
     (Range_contains (r_zooms r) zoom \<and> Type_compatible (r_type r) t
      \<and> Closed_compatible (r_closed r) c
      \<and> list_all (\<lambda>f. Filter_match f tags) (r_filters r))"

subsection \<open>Render instructions and the style's queries\<close>

text \<open>
  The render instructions own their rule by value (\<open>Render::_rule\<close>). Of their other
  members the z-order, the priority and the label key are kept; pens, brushes, fonts and
  images are drawing attributes that no query reads.
\<close>

record PathRender =
  pr_rule :: Rule
  pr_zOrder :: int

record CircleRender =
  cr_rule :: Rule
  cr_zOrder :: int

record TextRender =
  tr_rule :: Rule
  tr_priority :: int
  tr_key :: "32 word"

record Symbol =
  sy_rule :: Rule
  sy_priority :: int

text \<open>\<open>Style\<close>: the six instruction lists.\<close>

record Style =
  s_paths :: "PathRender list"
  s_circles :: "CircleRender list"
  s_pathLabels :: "TextRender list"
  s_pointLabels :: "TextRender list"
  s_areaLabels :: "TextRender list"
  s_symbols :: "Symbol list"

text \<open>
  Modelled from the spec: the overload \<open>Rule::match(zoom, closed, tags)\<close> and the queries
  \<open>Style::paths\<close> and \<open>Style::pointLabels\<close>, declared in style.h and defined in
  style.cpp, which is not among the sources. The spec: the overloads "omit
  type/closed/zoom when the caller's context already fixes them"; each query "performs a
  linear scan of its instruction list, testing each instruction's owned Rule against
  the given context, and returns all matches"; "PathRender and CircleRender results are
  returned sorted ascending by z-order", "TextRender and Symbol results are returned
  sorted ascending by priority". A path is a way; the context of \<open>pointLabels\<close> is the
  zoom alone.
\<close>

definition Rule_match_way :: "Rule \<Rightarrow> int \<Rightarrow> bool \<Rightarrow> Tag list \<Rightarrow> bool" where
  "Rule_match_way r zoom isClosed tags =
     Rule_match r zoom WayType (if isClosed then YesClosed else NoClosed) tags"

definition paths :: "Style \<Rightarrow> int \<Rightarrow> bool \<Rightarrow> Tag list \<Rightarrow> PathRender list" where
  "paths s zoom isClosed tags =
     sort_key pr_zOrder
       (filter (\<lambda>p. Rule_match_way (pr_rule p) zoom isClosed tags) (s_paths s))"

definition pointLabels :: "Style \<Rightarrow> int \<Rightarrow> TextRender list" where
  "pointLabels s zoom =
     sort_key tr_priority
       (filter (\<lambda>t. Range_contains (r_zooms (tr_rule t)) zoom) (s_pointLabels s))"

section \<open>Data files (src/data/data.cpp)\<close>

subsection \<open>Points, elevations and the elevation model\<close>

text \<open>
  A \<open>qreal\<close> elevation is either NaN or a number, and the code only tests it with
  \<open>std::isnan\<close> and copies it: it is a \<open>real option\<close> here, \<open>None\<close> for NaN. The classes
  \<open>Coordinates\<close>, \<open>Trackpoint\<close> and \<open>Waypoint\<close> are declared in headers that are not
  among the sources; a point has an elevation when the stored value is not NaN, and
  \<open>setElevation\<close> stores its argument.
\<close>

record Coordinates =
  lon :: real
  lat :: real

record Trackpoint =
  tp_coordinates :: Coordinates
  tp_elevation :: "real option"

record Waypoint =
  wp_coordinates :: Coordinates
  wp_elevation :: "real option"

type_synonym SegmentData = "Trackpoint list"
type_synonym TrackData = "SegmentData list"
type_synonym RouteData = "Waypoint list"
type_synonym Area = "Coordinates list"

definition tp_hasElevation :: "Trackpoint \<Rightarrow> bool" where
  "tp_hasElevation t = (tp_elevation t \<noteq> None)"

definition wp_hasElevation :: "Waypoint \<Rightarrow> bool" where
  "wp_hasElevation w = (wp_elevation w \<noteq> None)"

text \<open>
  \<open>DEM::elevation\<close> (dem.h, not among the sources) is a parameter of the model: a
  function from coordinates to an elevation, \<open>None\<close> for NaN.
\<close>

type_synonym DEM = "Coordinates \<Rightarrow> real option"

subsection \<open>Parsers and the static members of \<open>Data\<close>\<close>

text \<open>
  The four reference arguments of \<open>Parser::parse\<close>, which a parser fills and which keep
  what a failed parser left in them.
\<close>

record ParseArgs =
  pa_trackData :: "TrackData list"
  pa_routeData :: "RouteData list"
  pa_polygons :: "Area list"
  pa_waypoints :: "Waypoint list"

text \<open>
  What a call of \<open>parse\<close> leaves behind: its return value, the reference arguments, and
  the parser's \<open>errorLine()\<close> and \<open>errorString()\<close>. The parser classes are not among the
  sources, so a parser is a parameter: a function of the file's contents (every call
  reads the file from its start: the fallback loop resets it after each failure) and of
  the arguments as the call finds them.
\<close>

record ParseOutcome =
  po_ok :: bool
  po_args :: ParseArgs
  po_errorLine :: int
  po_errorString :: string

type_synonym File = string
type_synonym Parser = "File \<Rightarrow> ParseArgs \<Rightarrow> ParseOutcome"

text \<open>
  The static members \<open>Data::_parsers\<close> and \<open>Data::_useDEM\<close>. A \<open>QMap\<close> is iterated in
  key order and holds one entry per key: the registry is an association list in that
  order, \<open>find\<close> is \<open>map_of\<close>.
\<close>

record DataStatic =
  st_parsers :: "(string \<times> Parser) list"
  st_useDEM :: bool

text \<open>\<open>bool Data::_useDEM = false\<close> and \<open>Data::useDEM\<close>.\<close>

definition DataStatic_init :: "(string \<times> Parser) list \<Rightarrow> DataStatic" where
  "DataStatic_init ps = \<lparr>st_parsers = ps, st_useDEM = False\<rparr>"

definition useDEM :: "bool \<Rightarrow> DataStatic \<Rightarrow> DataStatic" where
  "useDEM use st = st\<lparr>st_useDEM := use\<rparr>"

subsection \<open>\<open>Data::processData\<close>\<close>

text \<open>
  The members of a \<open>Data\<close> object. \<open>Track\<close> and \<open>Route\<close> are classes outside the sources,
  built from a \<open>TrackData\<close> and a \<open>RouteData\<close>: the lists \<open>_tracks\<close> and \<open>_routes\<close> hold
  the data each object was built from.
\<close>

record Data =
  d_tracks :: "TrackData list"
  d_routes :: "RouteData list"
  d_polygons :: "Area list"
  d_waypoints :: "Waypoint list"
  d_valid :: bool
  d_errorString :: string
  d_errorLine :: int

text \<open>The body of the innermost loop, for a track point and for a waypoint.\<close>

definition demTrackpoint :: "bool \<Rightarrow> DEM \<Rightarrow> Trackpoint \<Rightarrow> Trackpoint" where
  "demTrackpoint use dem t =
     (if \<not> tp_hasElevation t \<or> use then
        (case dem (tp_coordinates t) of
           None \<Rightarrow> t
         | Some elevation \<Rightarrow> t\<lparr>tp_elevation := Some elevation\<rparr>)
      else t)"

definition demWaypoint :: "bool \<Rightarrow> DEM \<Rightarrow> Waypoint \<Rightarrow> Waypoint" where
  "demWaypoint use dem w =
     (if \<not> wp_hasElevation w \<or> use then
        (case dem (wp_coordinates w) of
           None \<Rightarrow> w
         | Some elevation \<Rightarrow> w\<lparr>wp_elevation := Some elevation\<rparr>)
      else w)"

text \<open>
  The loops over the segments' points, the tracks' segments and the tracks; each track
  is appended to \<open>_tracks\<close> once its points are done.
\<close>

fun demSegment :: "bool \<Rightarrow> DEM \<Rightarrow> SegmentData \<Rightarrow> SegmentData" where
  "demSegment use dem [] = []"
| "demSegment use dem (t # ts) = demTrackpoint use dem t # demSegment use dem ts"

fun demTrack :: "bool \<Rightarrow> DEM \<Rightarrow> TrackData \<Rightarrow> TrackData" where
  "demTrack use dem [] = []"
| "demTrack use dem (seg # segs) = demSegment use dem seg # demTrack use dem segs"

fun processTracks :: "bool \<Rightarrow> DEM \<Rightarrow> TrackData list \<Rightarrow> Data \<Rightarrow> TrackData list \<times> Data" where
  "processTracks use dem [] d = ([], d)"
| "processTracks use dem (track # rest) d =
     (let track' = demTrack use dem track;
          d' = d\<lparr>d_tracks := d_tracks d @ [track']\<rparr>;
          (rest', d'') = processTracks use dem rest d'
      in (track' # rest', d''))"

fun demRoute :: "bool \<Rightarrow> DEM \<Rightarrow> RouteData \<Rightarrow> RouteData" where
  "demRoute use dem [] = []"
| "demRoute use dem (w # ws) = demWaypoint use dem w # demRoute use dem ws"

fun processRoutes :: "bool \<Rightarrow> DEM \<Rightarrow> RouteData list \<Rightarrow> Data \<Rightarrow> RouteData list \<times> Data" where
  "processRoutes use dem [] d = ([], d)"
| "processRoutes use dem (route # rest) d =
     (let route' = demRoute use dem route;
          d' = d\<lparr>d_routes := d_routes d @ [route']\<rparr>;
          (rest', d'') = processRoutes use dem rest d'
      in (route' # rest', d''))"

text \<open>
  \<open>Data::processData\<close>: the track data and the route data are reference arguments, so
  the function returns them as it leaves them, with the object. The third loop runs
  over the object's own \<open>_waypoints\<close> with the body of the route loop.
\<close>

definition processData ::
  "DataStatic \<Rightarrow> DEM \<Rightarrow> TrackData list \<Rightarrow> RouteData list \<Rightarrow> Data
   \<Rightarrow> TrackData list \<times> RouteData list \<times> Data" where
  "processData st dem trackData routeData d =
     (let (trackData', d1) = processTracks (st_useDEM st) dem trackData d;
          (routeData', d2) = processRoutes (st_useDEM st) dem routeData d1;
          d3 = d2\<lparr>d_waypoints := demRoute (st_useDEM st) dem (d_waypoints d2)\<rparr>
      in (trackData', routeData', d3))"

subsection \<open>The constructor \<open>Data::Data\<close>\<close>

text \<open>
  \<open>QString::toLower\<close> on the file name's suffix, for the letters A to Z (the registered
  suffixes are ASCII).
\<close>

definition toLower_char :: "char \<Rightarrow> char" where
  "toLower_char c =
     (case map_of (zip ''ABCDEFGHIJKLMNOPQRSTUVWXYZ'' ''abcdefghijklmnopqrstuvwxyz'') c of
        Some l \<Rightarrow> l
      | None \<Rightarrow> c)"

definition toLower :: "string \<Rightarrow> string" where
  "toLower s = map toLower_char s"

text \<open>
  A constructed object together with the keys of the registry entries whose parser's
  \<open>parse\<close> the constructor called, in call order. The list is the record of those calls;
  the class has no such member.
\<close>

type_synonym Constructed = "Data \<times> string list"

text \<open>The state of a \<open>Data\<close> object before the file is opened.\<close>

definition Data_new :: Data where
  "Data_new =
     \<lparr>d_tracks = [], d_routes = [], d_polygons = [], d_waypoints = [],
      d_valid = False, d_errorString = [], d_errorLine = 0\<rparr>"

definition ParseArgs_new :: ParseArgs where
  "ParseArgs_new =
     \<lparr>pa_trackData = [], pa_routeData = [], pa_polygons = [], pa_waypoints = []\<rparr>"

text \<open>
  \<open>_polygons\<close> and \<open>_waypoints\<close> are the object's members passed to \<open>parse\<close> by
  reference: after a call they hold what the parser left.
\<close>

definition afterParse :: "ParseArgs \<Rightarrow> Data \<Rightarrow> Data" where
  "afterParse args d = d\<lparr>d_polygons := pa_polygons args, d_waypoints := pa_waypoints args\<rparr>"

text \<open>The branch taken when a call of \<open>parse\<close> returns true.\<close>

definition parsed :: "DataStatic \<Rightarrow> DEM \<Rightarrow> bool \<Rightarrow> ParseArgs \<Rightarrow> Data \<Rightarrow> Data" where
  "parsed st dem poi args d =
     (let d1 = afterParse args d;
          d2 = (if \<not> poi then
                  snd (snd (processData st dem (pa_trackData args) (pa_routeData args) d1))
                else d1)
      in d2\<lparr>d_valid := True\<rparr>)"

text \<open>
  The fallback loop over the whole registry: the first parser that succeeds ends the
  constructor; when none does, the error is "Unknown format" at line 0. (The
  \<open>qWarning\<close> lines only write to the log.)
\<close>

fun tryParsers ::
  "DataStatic \<Rightarrow> DEM \<Rightarrow> bool \<Rightarrow> (string \<times> Parser) list \<Rightarrow> File \<Rightarrow> ParseArgs \<Rightarrow> Data
   \<Rightarrow> string list \<Rightarrow> Constructed" where
  "tryParsers st dem poi [] file args d calls =
     ((afterParse args d)\<lparr>d_errorLine := 0, d_errorString := ''Unknown format''\<rparr>, calls)"
| "tryParsers st dem poi ((k, p) # rest) file args d calls =
     (let out = p file args in
      if po_ok out then (parsed st dem poi (po_args out) d, calls @ [k])
      else tryParsers st dem poi rest file (po_args out) d (calls @ [k]))"

text \<open>
  \<open>Data::Data(fileName, poi)\<close>. The file system is outside the model: \<open>opened\<close> is what
  \<open>file.open\<close> gives, the file's contents or \<open>file.errorString()\<close>, and \<open>suffix\<close> is
  \<open>fi.suffix()\<close>.
\<close>

definition Data_ctor ::
  "DataStatic \<Rightarrow> DEM \<Rightarrow> string + File \<Rightarrow> string \<Rightarrow> bool \<Rightarrow> Constructed" where
  "Data_ctor st dem opened suffix poi =
     (case opened of
        Inl err \<Rightarrow> (Data_new\<lparr>d_errorString := err\<rparr>, [])
      | Inr file \<Rightarrow>
          (case map_of (st_parsers st) (toLower suffix) of
             Some p \<Rightarrow>
               (let out = p file ParseArgs_new in
                if po_ok out then
                  (parsed st dem poi (po_args out) Data_new, [toLower suffix])
                else
                  ((afterParse (po_args out) Data_new)
                     \<lparr>d_errorLine := po_errorLine out,
                      d_errorString := po_errorString out\<rparr>,
                   [toLower suffix]))
           | None \<Rightarrow>
               tryParsers st dem poi (st_parsers st) file ParseArgs_new Data_new []))"

section \<open>Filters\<close>

lemma keyMatches_tags_iff:
  "keyMatches_tags k tags \<longleftrightarrow> (\<exists>t \<in> set tags. k = 0 \<or> k = tag_key t)"
  by (induction tags) auto

lemma keyMatches_keys_iff:
  "keyMatches_keys ks tags \<longleftrightarrow> (\<exists>k \<in> set ks. \<exists>t \<in> set tags. k = 0 \<or> k = tag_key t)"
  by (induction ks) (auto simp: keyMatches_tags_iff)

lemma keyMatches_iff:
  "keyMatches f tags \<longleftrightarrow> (\<exists>k \<in> set (f_keys f). \<exists>t \<in> set tags. k = 0 \<or> k = tag_key t)"
  by (simp add: keyMatches_def keyMatches_keys_iff)

lemma valueMatches_tags_iff:
  "valueMatches_tags ba tags \<longleftrightarrow> (\<exists>t \<in> set tags. ba = [] \<or> ba = tag_value t)"
  by (induction tags) auto

lemma valueMatches_vals_iff:
  "valueMatches_vals bas tags \<longleftrightarrow>
     (\<exists>ba \<in> set bas. \<exists>t \<in> set tags. ba = [] \<or> ba = tag_value t)"
  by (induction bas) (auto simp: valueMatches_tags_iff)

lemma valueMatches_iff:
  "valueMatches f tags \<longleftrightarrow>
     (\<exists>ba \<in> set (f_vals f). \<exists>t \<in> set tags. ba = [] \<or> ba = tag_value t)"
  by (simp add: valueMatches_def valueMatches_vals_iff)

lemma keyMatches_keys_Nil: "keyMatches_keys ks [] = False"
  by (induction ks) simp_all

lemma valueMatches_vals_Nil: "valueMatches_vals bas [] = False"
  by (induction bas) simp_all

text \<open>
  A filter holding both wildcards matches every tag vector that has a tag, negated or
  not, and a negated one matches the empty tag vector as well.
\<close>

lemma wildcard_filter_match_nonempty:
  assumes "0 \<in> set (f_keys f)" and "[] \<in> set (f_vals f)" and "tags \<noteq> []"
  shows "Filter_match f tags"
proof -
  from assms(3) obtain t where t: "t \<in> set tags"
    by (cases tags) auto
  have "keyMatches f tags"
    using assms(1) t by (auto simp: keyMatches_iff)
  moreover have "valueMatches f tags"
    using assms(2) t by (auto simp: valueMatches_iff)
  ultimately show ?thesis
    by (simp add: Filter_match_def)
qed

text \<open>
  C1. The claim as written, that a filter whose key set holds the wildcard key and
  whose value set holds the wildcard value matches every tag vector, the empty one
  included, fails for the filter \<open>k="*" v="*"\<close> on the empty tag vector: the wildcard
  tests stand inside the loops over the tags, which have no iteration there.
\<close>

theorem wildcard_filter_counterexample:
  "0 \<in> set (f_keys \<lparr>f_keys = [0], f_vals = [[]], f_neg = False\<rparr>)
   \<and> [] \<in> set (f_vals \<lparr>f_keys = [0], f_vals = [[]], f_neg = False\<rparr>)
   \<and> Filter_match \<lparr>f_keys = [0], f_vals = [[]], f_neg = False\<rparr> [] = False"
  by (simp add: Filter_match_def keyMatches_def)

text \<open>
  C1, amended. A filter whose key set holds the wildcard key and whose value set holds
  the wildcard value matches every tag vector that has a tag; it matches the empty tag
  vector exactly when it is negated. (The filters of this kind that are not negated are
  those \<open>isTautology\<close> reports, which \<open>addFilter\<close> drops instead of storing.)
\<close>

theorem wildcard_filter_match:
  assumes "0 \<in> set (f_keys f)" and "[] \<in> set (f_vals f)"
  shows "Filter_match f tags = (tags \<noteq> [] \<or> f_neg f)"
proof (cases "tags = []")
  case True
  then show ?thesis
    by (simp add: Filter_match_def keyMatches_def keyMatches_keys_Nil)
next
  case False
  with assms show ?thesis
    by (simp add: wildcard_filter_match_nonempty)
qed

theorem wildcard_filter_match_witness:
  "Filter_match \<lparr>f_keys = [0], f_vals = [[]], f_neg = False\<rparr>
     [\<lparr>tag_key = 5, tag_value = ''no''\<rparr>] = True
   \<and> Filter_match \<lparr>f_keys = [0, 7], f_vals = [''yes'', []], f_neg = True\<rparr> [] = True
   \<and> Filter_match \<lparr>f_keys = [0, 7], f_vals = [''yes'', []], f_neg = False\<rparr> [] = False"
  using wildcard_filter_match
    [of "\<lparr>f_keys = [0], f_vals = [[]], f_neg = False\<rparr>" "[\<lparr>tag_key = 5, tag_value = ''no''\<rparr>]"]
    wildcard_filter_match [of "\<lparr>f_keys = [0, 7], f_vals = [''yes'', []], f_neg = True\<rparr>" "[]"]
    wildcard_filter_match [of "\<lparr>f_keys = [0, 7], f_vals = [''yes'', []], f_neg = False\<rparr>" "[]"]
  by simp

text \<open>
  C3. For a negated filter and a tag vector on which the key match succeeds (some
  candidate key is the wildcard or the key of some tag) and the value match fails (no
  declared value is the wildcard or the value of some tag), \<open>match\<close> returns false.
\<close>

theorem negated_key_match_without_value_match:
  assumes "f_neg f"
    and "\<exists>k \<in> set (f_keys f). \<exists>t \<in> set tags. k = 0 \<or> k = tag_key t"
    and "\<forall>ba \<in> set (f_vals f). \<forall>t \<in> set tags. ba \<noteq> [] \<and> ba \<noteq> tag_value t"
  shows "keyMatches f tags \<and> \<not> valueMatches f tags \<and> Filter_match f tags = False"
proof -
  have k: "keyMatches f tags"
    using assms(2) by (simp add: keyMatches_iff)
  have v: "\<not> valueMatches f tags"
    using assms(3) by (auto simp: valueMatches_iff)
  from assms(1) k v show ?thesis
    by (simp add: Filter_match_def)
qed

theorem negated_key_match_without_value_match_witness:
  "Filter_match \<lparr>f_keys = [7], f_vals = [''primary''], f_neg = True\<rparr>
     [\<lparr>tag_key = 7, tag_value = ''secondary''\<rparr>] = False"
  using negated_key_match_without_value_match
    [of "\<lparr>f_keys = [7], f_vals = [''primary''], f_neg = True\<rparr>"
        "[\<lparr>tag_key = 7, tag_value = ''secondary''\<rparr>]"]
  by simp

text \<open>
  C5. The claim as written, that a negated filter matches whenever none of its candidate
  keys occurs as a tag key, fails for a filter with the wildcard key: the key 0 occurs
  in no tag and still matches every tag.
\<close>

theorem negated_absent_key_counterexample:
  "f_neg \<lparr>f_keys = [0], f_vals = [''yes''], f_neg = True\<rparr>
   \<and> set (f_keys \<lparr>f_keys = [0], f_vals = [''yes''], f_neg = True\<rparr>)
       \<inter> tag_key ` set [\<lparr>tag_key = 5, tag_value = ''no''\<rparr>] = {}
   \<and> Filter_match \<lparr>f_keys = [0], f_vals = [''yes''], f_neg = True\<rparr>
       [\<lparr>tag_key = 5, tag_value = ''no''\<rparr>] = False"
  by (simp add: Filter_match_def keyMatches_def valueMatches_def)

text \<open>
  C5, amended. A negated filter matches every tag vector in which none of its candidate
  keys occurs as a tag key, provided the tag vector is empty or the key set does not
  hold the wildcard key; the value set plays no part.
\<close>

theorem negated_absent_key_matches:
  assumes "f_neg f"
    and "set (f_keys f) \<inter> tag_key ` set tags = {}"
    and "tags = [] \<or> 0 \<notin> set (f_keys f)"
  shows "Filter_match f tags"
proof -
  have "\<not> keyMatches f tags"
  proof
    assume "keyMatches f tags"
    then obtain k t where kt: "k \<in> set (f_keys f)" "t \<in> set tags" "k = 0 \<or> k = tag_key t"
      by (auto simp: keyMatches_iff)
    from kt(2) have "tags \<noteq> []" by auto
    with assms(3) have "0 \<notin> set (f_keys f)" by simp
    with kt(1,3) have "k = tag_key t" by auto
    with kt(1,2) have "k \<in> set (f_keys f) \<inter> tag_key ` set tags" by auto
    with assms(2) show False by simp
  qed
  with assms(1) show ?thesis
    by (simp add: Filter_match_def)
qed

theorem negated_absent_key_matches_witness:
  "Filter_match \<lparr>f_keys = [7], f_vals = [''yes''], f_neg = True\<rparr>
     [\<lparr>tag_key = 5, tag_value = ''no''\<rparr>]"
  using negated_absent_key_matches
    [of "\<lparr>f_keys = [7], f_vals = [''yes''], f_neg = True\<rparr>"
        "[\<lparr>tag_key = 5, tag_value = ''no''\<rparr>]"]
  by simp

text \<open>
  C8. On the empty tag vector \<open>keyMatches\<close> and \<open>valueMatches\<close> both return false,
  whatever the key set and the value set hold, so \<open>match\<close> returns true for a negated
  filter and false for one that is not negated.
\<close>

theorem match_empty_tags:
  "keyMatches f [] = False \<and> valueMatches f [] = False \<and> Filter_match f [] = f_neg f"
  by (simp add: Filter_match_def keyMatches_def valueMatches_def
      keyMatches_keys_Nil valueMatches_vals_Nil)

theorem match_empty_tags_witness:
  "Filter_match \<lparr>f_keys = [0], f_vals = [[]], f_neg = True\<rparr> [] = True
   \<and> Filter_match \<lparr>f_keys = [0, 7], f_vals = [[], ''yes''], f_neg = False\<rparr> [] = False"
  using match_empty_tags [of "\<lparr>f_keys = [0], f_vals = [[]], f_neg = True\<rparr>"]
    match_empty_tags [of "\<lparr>f_keys = [0, 7], f_vals = [[], ''yes''], f_neg = False\<rparr>"]
  by simp

section \<open>Rules\<close>

lemma Type_or_range: "Type_to_int a OR Type_to_int b \<in> {0, 1, 2, 3}"
  by (cases a; cases b) simp_all

lemma Type_of_int_or:
  "Type_to_int (Type_of_int (Type_to_int a OR Type_to_int b)) = Type_to_int a OR Type_to_int b"
  by (cases a; cases b) (simp_all add: Type_of_int_def)

text \<open>
  C2. A child rule declared for ways under a parent already narrowed to nodes: \<open>setType\<close>
  ORs 2 into 1, which is \<open>InvalidType\<close>, and the composed rule matches neither a node
  nor a way, at any zoom, for any closed state and any tags.
\<close>

theorem way_under_node_matches_nothing:
  assumes "r_type parent = NodeType"
  shows "r_type (setType WayType parent) = InvalidType
    \<and> Rule_match (setType WayType parent) zoom NodeType c tags = False
    \<and> Rule_match (setType WayType parent) zoom WayType c tags = False"
  using assms by (simp add: setType_def Type_of_int_def Rule_match_def Type_compatible_def)

theorem way_under_node_matches_nothing_witness:
  "Rule_match (setType WayType (setType NodeType Rule_ctor)) 10 NodeType AnyClosed [] = False
   \<and> Rule_match (setType WayType (setType NodeType Rule_ctor)) 10 WayType AnyClosed [] = False
   \<and> Rule_match (setType NodeType Rule_ctor) 10 NodeType AnyClosed [] = True"
  using way_under_node_matches_nothing [of "setType NodeType Rule_ctor" 10 AnyClosed "[]"]
  by (simp add: setType_def Type_of_int_def Rule_ctor_def Rule_match_def Type_compatible_def
      Closed_compatible_def Range_contains_def)

text \<open>
  C6. \<open>setMinZoom\<close> sets the minimum to the larger of its argument and the old minimum
  and leaves the maximum; \<open>setMaxZoom\<close> sets the maximum to the smaller of its argument
  and the old maximum and leaves the minimum. The zooms of the new range are those of
  the old range that meet the bound, so the range only shrinks. \<open>Rule()\<close> starts at
  [0, 127].
\<close>

theorem zoom_narrowing:
  "range_min (r_zooms (setMinZoom z r)) = max z (range_min (r_zooms r))
   \<and> range_min (r_zooms r) \<le> range_min (r_zooms (setMinZoom z r))
   \<and> range_max (r_zooms (setMinZoom z r)) = range_max (r_zooms r)
   \<and> range_max (r_zooms (setMaxZoom z r)) = min z (range_max (r_zooms r))
   \<and> range_max (r_zooms (setMaxZoom z r)) \<le> range_max (r_zooms r)
   \<and> range_min (r_zooms (setMaxZoom z r)) = range_min (r_zooms r)
   \<and> Range_contains (r_zooms (setMinZoom z r)) x
       = (Range_contains (r_zooms r) x \<and> z \<le> x)
   \<and> Range_contains (r_zooms (setMaxZoom z r)) x
       = (Range_contains (r_zooms r) x \<and> x \<le> z)
   \<and> r_zooms Rule_ctor = \<lparr>range_min = 0, range_max = 127\<rparr>"
  by (auto simp: setMinZoom_def setMaxZoom_def Range_contains_def Rule_ctor_def)

theorem zoom_narrowing_witness:
  "r_zooms (setMaxZoom 20 (setMinZoom 8 Rule_ctor)) = \<lparr>range_min = 8, range_max = 20\<rparr>
   \<and> r_zooms (setMaxZoom 200 (setMinZoom (-3) Rule_ctor)) = \<lparr>range_min = 0, range_max = 127\<rparr>"
  using zoom_narrowing [of 8 Rule_ctor] zoom_narrowing [of 20 "setMinZoom 8 Rule_ctor"]
  by (simp add: setMinZoom_def setMaxZoom_def Rule_ctor_def)

lemma spec_tautology_isTautology: "spec_tautology f \<Longrightarrow> isTautology f"
  by (auto simp: spec_tautology_def isTautology_def)

lemma fold_addFilter:
  "r_filters (fold addFilter fs r) = r_filters r @ filter (\<lambda>g. \<not> isTautology g) fs"
  by (induction fs arbitrary: r) (simp_all add: addFilter_def)

text \<open>
  C7. The claim as written fails in its second half: \<open>isTautology\<close> tests that the key
  set and the value set contain the wildcard, not that they hold nothing else, so a
  non-negated filter with the keys \<open>*\<close> and 5 and the value \<open>*\<close> is no tautology in the
  spec's sense and is dropped all the same.
\<close>

theorem addFilter_counterexample:
  "\<not> spec_tautology \<lparr>f_keys = [0, 5], f_vals = [[]], f_neg = False\<rparr>
   \<and> r_filters (addFilter \<lparr>f_keys = [0, 5], f_vals = [[]], f_neg = False\<rparr> Rule_ctor) = []"
  by (simp add: spec_tautology_def addFilter_def isTautology_def Rule_ctor_def)

text \<open>
  C7, amended. \<open>addFilter\<close> never stores a tautology in the spec's sense, and a rule
  compiled by any sequence of \<open>addFilter\<close> calls from a rule that holds none holds none.
  What it stores is every filter for which \<open>isTautology\<close> is false (the filter is
  negated, or its key set lacks the wildcard key, or its value set lacks the wildcard
  value), in the order given; every other filter is dropped.
\<close>

theorem addFilter_stores:
  "(spec_tautology f \<longrightarrow> addFilter f r = r)
   \<and> (isTautology f \<longrightarrow> addFilter f r = r)
   \<and> (f_neg f \<or> 0 \<notin> set (f_keys f) \<or> [] \<notin> set (f_vals f)
        \<longrightarrow> r_filters (addFilter f r) = r_filters r @ [f])
   \<and> r_filters (fold addFilter fs r) = r_filters r @ filter (\<lambda>g. \<not> isTautology g) fs
   \<and> (list_all (\<lambda>g. \<not> spec_tautology g) (r_filters r)
        \<longrightarrow> list_all (\<lambda>g. \<not> spec_tautology g) (r_filters (fold addFilter fs r)))"
proof -
  have 1: "spec_tautology f \<longrightarrow> addFilter f r = r"
    using spec_tautology_isTautology [of f] by (simp add: addFilter_def)
  have 2: "isTautology f \<longrightarrow> addFilter f r = r"
    by (simp add: addFilter_def)
  have 3: "f_neg f \<or> 0 \<notin> set (f_keys f) \<or> [] \<notin> set (f_vals f)
        \<longrightarrow> r_filters (addFilter f r) = r_filters r @ [f]"
    by (auto simp: addFilter_def isTautology_def)
  have 4: "list_all (\<lambda>g. \<not> spec_tautology g) (r_filters r)
        \<longrightarrow> list_all (\<lambda>g. \<not> spec_tautology g) (r_filters (fold addFilter fs r))"
    using spec_tautology_isTautology by (auto simp: fold_addFilter list_all_iff)
  from 1 2 3 4 show ?thesis
    by (simp add: fold_addFilter)
qed

theorem addFilter_stores_witness:
  "addFilter \<lparr>f_keys = [0], f_vals = [[]], f_neg = False\<rparr> Rule_ctor = Rule_ctor
   \<and> r_filters (addFilter \<lparr>f_keys = [7], f_vals = [''primary''], f_neg = False\<rparr> Rule_ctor)
       = [\<lparr>f_keys = [7], f_vals = [''primary''], f_neg = False\<rparr>]
   \<and> r_filters (addFilter \<lparr>f_keys = [0], f_vals = [[]], f_neg = True\<rparr> Rule_ctor)
       = [\<lparr>f_keys = [0], f_vals = [[]], f_neg = True\<rparr>]"
  using addFilter_stores [of "\<lparr>f_keys = [0], f_vals = [[]], f_neg = False\<rparr>" Rule_ctor "[]"]
    addFilter_stores [of "\<lparr>f_keys = [7], f_vals = [''primary''], f_neg = False\<rparr>" Rule_ctor "[]"]
    addFilter_stores [of "\<lparr>f_keys = [0], f_vals = [[]], f_neg = True\<rparr>" Rule_ctor "[]"]
  by (simp add: spec_tautology_def isTautology_def Rule_ctor_def)

section \<open>Queries\<close>

text \<open>
  C4. \<open>paths\<close> returns the path instructions whose rule matches, each as often as it is
  listed, in non-decreasing z-order; \<open>pointLabels\<close> returns the matching point labels in
  non-decreasing priority.
\<close>

theorem queries_sorted:
  "sorted (map pr_zOrder (paths s zoom c tags))
   \<and> mset (paths s zoom c tags)
       = mset (filter (\<lambda>p. Rule_match_way (pr_rule p) zoom c tags) (s_paths s))
   \<and> sorted (map tr_priority (pointLabels s zoom))
   \<and> mset (pointLabels s zoom)
       = mset (filter (\<lambda>t. Range_contains (r_zooms (tr_rule t)) zoom) (s_pointLabels s))"
  by (simp add: paths_def pointLabels_def)

theorem queries_sorted_witness:
  "map pr_zOrder
     (paths \<lparr>s_paths = [\<lparr>pr_rule = Rule_ctor, pr_zOrder = 2\<rparr>,
                         \<lparr>pr_rule = setMinZoom 15 Rule_ctor, pr_zOrder = 0\<rparr>,
                         \<lparr>pr_rule = Rule_ctor, pr_zOrder = 1\<rparr>],
             s_circles = [], s_pathLabels = [], s_pointLabels = [], s_areaLabels = [],
             s_symbols = []\<rparr> 12 False []) = [1, 2]"
  using queries_sorted
    [of "\<lparr>s_paths = [\<lparr>pr_rule = Rule_ctor, pr_zOrder = 2\<rparr>,
                      \<lparr>pr_rule = setMinZoom 15 Rule_ctor, pr_zOrder = 0\<rparr>,
                      \<lparr>pr_rule = Rule_ctor, pr_zOrder = 1\<rparr>],
          s_circles = [], s_pathLabels = [], s_pointLabels = [], s_areaLabels = [],
          s_symbols = []\<rparr>" 12 False "[]"]
  by (simp add: paths_def Rule_match_way_def Rule_match_def Rule_ctor_def setMinZoom_def
      Range_contains_def Type_compatible_def Closed_compatible_def)

section \<open>Processing and construction of data files\<close>

lemma demSegment_map: "demSegment use dem seg = map (demTrackpoint use dem) seg"
  by (induction seg) simp_all

lemma demTrack_map: "demTrack use dem track = map (demSegment use dem) track"
  by (induction track) simp_all

lemma demRoute_map: "demRoute use dem route = map (demWaypoint use dem) route"
  by (induction route) simp_all

lemma processTracks_eq:
  "processTracks use dem tds d =
     (map (demTrack use dem) tds, d\<lparr>d_tracks := d_tracks d @ map (demTrack use dem) tds\<rparr>)"
  by (induction tds arbitrary: d) (simp_all add: Let_def)

lemma processRoutes_eq:
  "processRoutes use dem rds d =
     (map (demRoute use dem) rds, d\<lparr>d_routes := d_routes d @ map (demRoute use dem) rds\<rparr>)"
  by (induction rds arbitrary: d) (simp_all add: Let_def)

lemma processData_eq:
  "processData st dem tds rds d =
     (map (demTrack (st_useDEM st) dem) tds, map (demRoute (st_useDEM st) dem) rds,
      d\<lparr>d_tracks := d_tracks d @ map (demTrack (st_useDEM st) dem) tds,
        d_routes := d_routes d @ map (demRoute (st_useDEM st) dem) rds,
        d_waypoints := demRoute (st_useDEM st) dem (d_waypoints d)\<rparr>)"
  by (simp add: processData_def processTracks_eq processRoutes_eq)

lemma demTrackpoint_keeps:
  "(tp_hasElevation t \<and> \<not> use \<longrightarrow> demTrackpoint use dem t = t)
   \<and> (dem (tp_coordinates t) = None \<longrightarrow> demTrackpoint use dem t = t)"
  by (simp add: demTrackpoint_def split: option.splits)

lemma demWaypoint_keeps:
  "(wp_hasElevation w \<and> \<not> use \<longrightarrow> demWaypoint use dem w = w)
   \<and> (dem (wp_coordinates w) = None \<longrightarrow> demWaypoint use dem w = w)"
  by (simp add: demWaypoint_def split: option.splits)

text \<open>
  C10. \<open>processData\<close> leaves the lists' shapes as they are, and point by point: a track
  point, a route waypoint or a waypoint of the object that has an elevation keeps it
  when \<open>_useDEM\<close> is false, and one whose DEM lookup is NaN keeps what it has, set or
  not, whatever \<open>_useDEM\<close> is. \<open>_useDEM\<close> is false initially and is what the last call
  of \<open>useDEM\<close> passed.
\<close>

theorem processData_keeps_elevations:
  assumes "processData st dem trackData routeData d = (trackData', routeData', d')"
  shows "list_all2 (list_all2 (list_all2 (\<lambda>t t'.
            (tp_hasElevation t \<and> \<not> st_useDEM st \<longrightarrow> tp_elevation t' = tp_elevation t)
            \<and> (dem (tp_coordinates t) = None \<longrightarrow> tp_elevation t' = tp_elevation t))))
          trackData trackData'
    \<and> list_all2 (list_all2 (\<lambda>w w'.
            (wp_hasElevation w \<and> \<not> st_useDEM st \<longrightarrow> wp_elevation w' = wp_elevation w)
            \<and> (dem (wp_coordinates w) = None \<longrightarrow> wp_elevation w' = wp_elevation w)))
          routeData routeData'
    \<and> list_all2 (\<lambda>w w'.
            (wp_hasElevation w \<and> \<not> st_useDEM st \<longrightarrow> wp_elevation w' = wp_elevation w)
            \<and> (dem (wp_coordinates w) = None \<longrightarrow> wp_elevation w' = wp_elevation w))
          (d_waypoints d) (d_waypoints d')
    \<and> d_tracks d' = d_tracks d @ trackData'
    \<and> d_routes d' = d_routes d @ routeData'
    \<and> st_useDEM (DataStatic_init ps) = False
    \<and> st_useDEM (useDEM use st) = use"
proof -
  let ?use = "st_useDEM st"
  from assms have td: "trackData' = map (demTrack ?use dem) trackData"
    and rd: "routeData' = map (demRoute ?use dem) routeData"
    and ws: "d_waypoints d' = demRoute ?use dem (d_waypoints d)"
    and tr: "d_tracks d' = d_tracks d @ trackData'"
    and ro: "d_routes d' = d_routes d @ routeData'"
    by (auto simp: processData_eq)
  have 1: "list_all2 (list_all2 (list_all2 (\<lambda>t t'.
            (tp_hasElevation t \<and> \<not> ?use \<longrightarrow> tp_elevation t' = tp_elevation t)
            \<and> (dem (tp_coordinates t) = None \<longrightarrow> tp_elevation t' = tp_elevation t))))
          trackData trackData'"
    unfolding td
    by (simp add: list_all2_map2 demTrack_map demSegment_map demTrackpoint_keeps list.rel_refl)
  have 2: "list_all2 (list_all2 (\<lambda>w w'.
            (wp_hasElevation w \<and> \<not> ?use \<longrightarrow> wp_elevation w' = wp_elevation w)
            \<and> (dem (wp_coordinates w) = None \<longrightarrow> wp_elevation w' = wp_elevation w)))
          routeData routeData'"
    unfolding rd
    by (simp add: list_all2_map2 demRoute_map demWaypoint_keeps list.rel_refl)
  have 3: "list_all2 (\<lambda>w w'.
            (wp_hasElevation w \<and> \<not> ?use \<longrightarrow> wp_elevation w' = wp_elevation w)
            \<and> (dem (wp_coordinates w) = None \<longrightarrow> wp_elevation w' = wp_elevation w))
          (d_waypoints d) (d_waypoints d')"
    unfolding ws
    by (simp add: list_all2_map2 demRoute_map demWaypoint_keeps list.rel_refl)
  from 1 2 3 tr ro show ?thesis
    by (simp add: DataStatic_init_def useDEM_def)
qed

theorem processData_keeps_elevations_witness:
  "fst (processData (DataStatic_init []) (\<lambda>c. if lon c = 0 then None else Some 100)
     [[[\<lparr>tp_coordinates = \<lparr>lon = 1, lat = 2\<rparr>, tp_elevation = Some 5\<rparr>,
        \<lparr>tp_coordinates = \<lparr>lon = 0, lat = 2\<rparr>, tp_elevation = None\<rparr>,
        \<lparr>tp_coordinates = \<lparr>lon = 1, lat = 3\<rparr>, tp_elevation = None\<rparr>]]] [] Data_new)
   = [[[\<lparr>tp_coordinates = \<lparr>lon = 1, lat = 2\<rparr>, tp_elevation = Some 5\<rparr>,
        \<lparr>tp_coordinates = \<lparr>lon = 0, lat = 2\<rparr>, tp_elevation = None\<rparr>,
        \<lparr>tp_coordinates = \<lparr>lon = 1, lat = 3\<rparr>, tp_elevation = Some 100\<rparr>]]]"
proof -
  let ?r = "processData (DataStatic_init []) (\<lambda>c. if lon c = 0 then None else Some 100)
     [[[\<lparr>tp_coordinates = \<lparr>lon = 1, lat = 2\<rparr>, tp_elevation = Some 5\<rparr>,
        \<lparr>tp_coordinates = \<lparr>lon = 0, lat = 2\<rparr>, tp_elevation = None\<rparr>,
        \<lparr>tp_coordinates = \<lparr>lon = 1, lat = 3\<rparr>, tp_elevation = None\<rparr>]]] [] Data_new"
  have e: "?r = (fst ?r, fst (snd ?r), snd (snd ?r))"
    by simp
  show ?thesis
    using processData_keeps_elevations [OF e]
    by (simp add: processData_def DataStatic_init_def demTrackpoint_def tp_hasElevation_def
        Let_def Data_new_def)
qed

lemma tryParsers_calls:
  "\<exists>n \<le> length ps. snd (tryParsers st dem poi ps file args d calls) = calls @ take n (map fst ps)"
proof (induction ps arbitrary: args calls)
  case Nil
  then show ?case by simp
next
  case (Cons kp ps)
  obtain k p where kp: "kp = (k, p)" by (cases kp)
  show ?case
  proof (cases "po_ok (p file args)")
    case True
    then have "snd (tryParsers st dem poi (kp # ps) file args d calls)
        = calls @ take 1 (map fst (kp # ps))"
      by (simp add: kp)
    then show ?thesis
      by (intro exI [of _ 1]) simp
  next
    case False
    from Cons.IH [of "po_args (p file args)" "calls @ [k]"]
    obtain n where n: "n \<le> length ps"
      "snd (tryParsers st dem poi ps file (po_args (p file args)) d (calls @ [k]))
        = (calls @ [k]) @ take n (map fst ps)"
      by blast
    with False have "snd (tryParsers st dem poi (kp # ps) file args d calls)
        = calls @ take (Suc n) (map fst (kp # ps))"
      by (simp add: kp)
    with n(1) show ?thesis
      by (intro exI [of _ "Suc n"]) simp
  qed
qed

lemma tryParsers_all_fail:
  assumes "\<forall>kp \<in> set ps. \<forall>a. \<not> po_ok (snd kp file a)"
    and "\<not> d_valid d"
  shows "snd (tryParsers st dem poi ps file args d calls) = calls @ map fst ps
    \<and> \<not> d_valid (fst (tryParsers st dem poi ps file args d calls))
    \<and> d_errorString (fst (tryParsers st dem poi ps file args d calls)) = ''Unknown format''
    \<and> d_errorLine (fst (tryParsers st dem poi ps file args d calls)) = 0"
  using assms
proof (induction ps arbitrary: args calls)
  case Nil
  then show ?case by (simp add: afterParse_def)
next
  case (Cons kp ps)
  obtain k p where kp: "kp = (k, p)" by (cases kp)
  from Cons.prems(1) have f: "\<not> po_ok (p file args)"
    by (simp add: kp)
  from Cons.prems have rest: "\<forall>kp \<in> set ps. \<forall>a. \<not> po_ok (snd kp file a)"
    by simp
  from Cons.IH [OF rest Cons.prems(2), of "po_args (p file args)" "calls @ [k]"] f
  show ?case by (simp add: kp)
qed

lemma parsed_valid: "d_valid (parsed st dem poi args d)"
  by (simp add: parsed_def Let_def)

text \<open>
  C9. For a file that does not open, no parser is called. For a file that opens: when
  the lower-cased suffix is a key of the registry, the constructor calls that entry's
  parser and no other; the object is valid exactly when that call succeeds, and when it
  fails the error line and the error string are the parser's. When the suffix is no key
  of the registry, the constructor calls the parsers in registry order, up to the first
  that succeeds, and when all of them fail it has called every one and reports
  "Unknown format" at line 0.
\<close>

theorem suffix_parser_only:
  "snd (Data_ctor st dem (Inl err) suffix poi) = []
   \<and> (\<forall>p. map_of (st_parsers st) (toLower suffix) = Some p \<longrightarrow>
      snd (Data_ctor st dem (Inr file) suffix poi) = [toLower suffix]
      \<and> d_valid (fst (Data_ctor st dem (Inr file) suffix poi)) = po_ok (p file ParseArgs_new)
      \<and> (\<not> po_ok (p file ParseArgs_new) \<longrightarrow>
           d_errorLine (fst (Data_ctor st dem (Inr file) suffix poi))
             = po_errorLine (p file ParseArgs_new)
           \<and> d_errorString (fst (Data_ctor st dem (Inr file) suffix poi))
             = po_errorString (p file ParseArgs_new)))
   \<and> (map_of (st_parsers st) (toLower suffix) = None \<longrightarrow>
      (\<exists>n \<le> length (st_parsers st).
          snd (Data_ctor st dem (Inr file) suffix poi) = take n (map fst (st_parsers st)))
      \<and> ((\<forall>kp \<in> set (st_parsers st). \<forall>a. \<not> po_ok (snd kp file a)) \<longrightarrow>
           snd (Data_ctor st dem (Inr file) suffix poi) = map fst (st_parsers st)
           \<and> \<not> d_valid (fst (Data_ctor st dem (Inr file) suffix poi))
           \<and> d_errorString (fst (Data_ctor st dem (Inr file) suffix poi)) = ''Unknown format''
           \<and> d_errorLine (fst (Data_ctor st dem (Inr file) suffix poi)) = 0))"
proof (intro conjI allI impI)
  show "snd (Data_ctor st dem (Inl err) suffix poi) = []"
    by (simp add: Data_ctor_def)
next
  fix p
  assume p: "map_of (st_parsers st) (toLower suffix) = Some p"
  show "snd (Data_ctor st dem (Inr file) suffix poi) = [toLower suffix]"
    using p by (simp add: Data_ctor_def Let_def)
  show "d_valid (fst (Data_ctor st dem (Inr file) suffix poi)) = po_ok (p file ParseArgs_new)"
    using p by (simp add: Data_ctor_def Let_def parsed_valid afterParse_def Data_new_def)
  assume "\<not> po_ok (p file ParseArgs_new)"
  then show "d_errorLine (fst (Data_ctor st dem (Inr file) suffix poi))
             = po_errorLine (p file ParseArgs_new)"
    and "d_errorString (fst (Data_ctor st dem (Inr file) suffix poi))
             = po_errorString (p file ParseArgs_new)"
    using p by (simp_all add: Data_ctor_def Let_def)
next
  assume n: "map_of (st_parsers st) (toLower suffix) = None"
  show "\<exists>n \<le> length (st_parsers st).
          snd (Data_ctor st dem (Inr file) suffix poi) = take n (map fst (st_parsers st))"
    using n tryParsers_calls
      [where ps = "st_parsers st" and args = ParseArgs_new and d = Data_new and calls = "[]"]
    by (simp add: Data_ctor_def)
  assume fail: "\<forall>kp \<in> set (st_parsers st). \<forall>a. \<not> po_ok (snd kp file a)"
  have "\<not> d_valid Data_new" by (simp add: Data_new_def)
  from tryParsers_all_fail [OF fail this, where args = ParseArgs_new and calls = "[]"] n
  show "snd (Data_ctor st dem (Inr file) suffix poi) = map fst (st_parsers st)"
    and "\<not> d_valid (fst (Data_ctor st dem (Inr file) suffix poi))"
    and "d_errorString (fst (Data_ctor st dem (Inr file) suffix poi)) = ''Unknown format''"
    and "d_errorLine (fst (Data_ctor st dem (Inr file) suffix poi)) = 0"
    by (simp_all add: Data_ctor_def)
qed

theorem suffix_parser_only_witness:
  "(let st = DataStatic_init
       [(''gpx'', \<lambda>file args.
           \<lparr>po_ok = False, po_args = args, po_errorLine = 3, po_errorString = ''bad tag''\<rparr>),
        (''tcx'', \<lambda>file args.
           \<lparr>po_ok = True, po_args = args, po_errorLine = 0, po_errorString = []\<rparr>)];
        r = Data_ctor st (\<lambda>c. None) (Inr ''<tcx/>'') ''GPX'' False
    in snd r = [''gpx''] \<and> d_valid (fst r) = False \<and> d_errorLine (fst r) = 3
       \<and> d_errorString (fst r) = ''bad tag'')
   \<and> (let st = DataStatic_init
       [(''gpx'', \<lambda>file args.
           \<lparr>po_ok = False, po_args = args, po_errorLine = 3, po_errorString = ''bad tag''\<rparr>),
        (''igc'', \<lambda>file args.
           \<lparr>po_ok = False, po_args = args, po_errorLine = 1, po_errorString = ''no header''\<rparr>)];
        r = Data_ctor st (\<lambda>c. None) (Inr ''<tcx/>'') ''dat'' False
    in snd r = [''gpx'', ''igc''] \<and> d_valid (fst r) = False \<and> d_errorLine (fst r) = 0
       \<and> d_errorString (fst r) = ''Unknown format'')"
  using suffix_parser_only
    [of "DataStatic_init
       [(''gpx'', \<lambda>file args.
           \<lparr>po_ok = False, po_args = args, po_errorLine = 3, po_errorString = ''bad tag''\<rparr>),
        (''tcx'', \<lambda>file args.
           \<lparr>po_ok = True, po_args = args, po_errorLine = 0, po_errorString = []\<rparr>)]"
       "\<lambda>c. None" _ "''GPX''" False "''<tcx/>''"]
    suffix_parser_only
    [of "DataStatic_init
       [(''gpx'', \<lambda>file args.
           \<lparr>po_ok = False, po_args = args, po_errorLine = 3, po_errorString = ''bad tag''\<rparr>),
        (''igc'', \<lambda>file args.
           \<lparr>po_ok = False, po_args = args, po_errorLine = 1, po_errorString = ''no header''\<rparr>)]"
       "\<lambda>c. None" _ "''dat''" False "''<tcx/>''"]
  by (simp add: DataStatic_init_def toLower_def toLower_char_def Let_def)

end
